theory Spec2Isabelle
  imports Complex_Main
begin

section \<open>JavaScript string primitives used by extension-impact.js\<close>

text \<open>
  Strings built from plain text and the bytes of the captured output buffer are lists
  of characters; a string decoded from the buffer is a list of UTF-16 code units.
  Indices are \<^typ>\<open>int\<close>, because \<^verbatim>\<open>indexOf\<close> and \<^verbatim>\<open>lastIndexOf\<close> answer -1 when nothing is
  found and the script does arithmetic on that answer.
\<close>

primrec starts_with :: "string \<Rightarrow> string \<Rightarrow> bool" where
  "starts_with [] s = True"
| "starts_with (c # cs) s = (case s of [] \<Rightarrow> False | d # ds \<Rightarrow> c = d \<and> starts_with cs ds)"

text \<open>Offset of the first match of the needle in \<open>s\<close>, if any.\<close>

primrec find_first :: "string \<Rightarrow> string \<Rightarrow> nat option" where
  "find_first needle [] = (if needle = [] then Some 0 else None)"
| "find_first needle (c # cs) =
     (if starts_with needle (c # cs) then Some 0
      else map_option Suc (find_first needle cs))"

text \<open>Offset of the last match of the needle in \<open>s\<close>, if any.\<close>

primrec find_last :: "string \<Rightarrow> string \<Rightarrow> nat option" where
  "find_last needle [] = (if needle = [] then Some 0 else None)"
| "find_last needle (c # cs) =
     (case find_last needle cs of
        Some k \<Rightarrow> Some (Suc k)
      | None \<Rightarrow> if starts_with needle (c # cs) then Some 0 else None)"

definition clamp_index :: "'a list \<Rightarrow> int \<Rightarrow> nat" where
  "clamp_index s i = nat (max 0 (min i (int (length s))))"

text \<open>\<^verbatim>\<open>s.indexOf(needle, from)\<close>: the start position is clamped into the string.\<close>

definition indexOf :: "string \<Rightarrow> string \<Rightarrow> int \<Rightarrow> int" where
  "indexOf s needle from =
     (let k = clamp_index s from
      in case find_first needle (drop k s) of
           None \<Rightarrow> - 1
         | Some j \<Rightarrow> int (k + j))"

text \<open>\<^verbatim>\<open>s.lastIndexOf(needle)\<close>.\<close>

definition lastIndexOf :: "string \<Rightarrow> string \<Rightarrow> int" where
  "lastIndexOf s needle = (case find_last needle s of None \<Rightarrow> - 1 | Some j \<Rightarrow> int j)"

text \<open>
  \<^verbatim>\<open>s.substring(a, b)\<close>: both ends are clamped into the string and swapped when
  they come in the wrong order.
\<close>

definition substring :: "'a list \<Rightarrow> int \<Rightarrow> int \<Rightarrow> 'a list" where
  "substring s a b =
     (let a' = clamp_index s a; b' = clamp_index s b;
          lo = min a' b'; hi = max a' b'
      in take (hi - lo) (drop lo s))"

text \<open>\<^verbatim>\<open>s.substring(a)\<close>: to the end of the string.\<close>

definition substring_from :: "string \<Rightarrow> int \<Rightarrow> string" where
  "substring_from s a = drop (clamp_index s a) s"

text \<open>\<^verbatim>\<open>s.replace(/"/g, '')\<close>: every double quote is removed.\<close>

definition strip_quotes :: "string \<Rightarrow> string" where
  "strip_quotes s = filter (\<lambda>c. c \<noteq> CHR 0x22) s"

section \<open>Extension qualifiers\<close>

text \<open>
  \<^verbatim>\<open>getPackagesExtensions\<close> builds each qualifier as
  \<^verbatim>\<open>"name" + ': ' + "version"\<close>, both parts wrapped in double quotes.
\<close>

definition make_qualifier :: "string \<Rightarrow> string \<Rightarrow> string" where
  "make_qualifier name version =
     (CHR 0x22 # name @ [CHR 0x22]) @ '': '' @ (CHR 0x22 # version @ [CHR 0x22])"

text \<open>The first three statements of \<^verbatim>\<open>calculateExtension\<close> for a defined qualifier.\<close>

definition qualifier_name :: "string \<Rightarrow> string" where
  "qualifier_name extensionQualifier =
     (let qualifier = strip_quotes extensionQualifier
      in substring qualifier 0 (lastIndexOf qualifier '':''))"

definition qualifier_version :: "string \<Rightarrow> string" where
  "qualifier_version extensionQualifier =
     (let qualifier = strip_quotes extensionQualifier
      in substring_from qualifier (lastIndexOf qualifier '':'' + 1))"

section \<open>Scraping the measurement output\<close>

text \<open>
  \<^verbatim>\<open>execSync\<close> is called without an encoding, so the captured output is a Buffer of
  bytes, and \<^verbatim>\<open>output.toString()\<close> decodes it as UTF-8 into a string of UTF-16 code
  units. An ill-formed sequence gives one replacement character U+FFFD and decoding
  goes on at the byte that broke it; a code point from U+10000 on gives two
  surrogates.
\<close>

definition surrogates :: "nat \<Rightarrow> nat list" where
  "surrogates cp = [55296 + (cp - 65536) div 1024, 56320 + (cp - 65536) mod 1024]"

fun utf8_decode :: "nat list \<Rightarrow> nat list" where
  "utf8_decode [] = []"
| "utf8_decode (b # bs) =
     (if b < 128 then b # utf8_decode bs
      else if 194 \<le> b \<and> b \<le> 223 then
        (case bs of
           [] \<Rightarrow> [65533]
         | c # cs \<Rightarrow>
             if 128 \<le> c \<and> c \<le> 191 then ((b - 192) * 64 + (c - 128)) # utf8_decode cs
             else 65533 # utf8_decode bs)
      else if 224 \<le> b \<and> b \<le> 239 then
        (case bs of
           [] \<Rightarrow> [65533]
         | c # cs \<Rightarrow>
             if (if b = 224 then 160 else 128) \<le> c \<and> c \<le> (if b = 237 then 159 else 191) then
               (case cs of
                  [] \<Rightarrow> [65533]
                | d # ds \<Rightarrow>
                    if 128 \<le> d \<and> d \<le> 191
                    then ((b - 224) * 4096 + (c - 128) * 64 + (d - 128)) # utf8_decode ds
                    else 65533 # utf8_decode cs)
             else 65533 # utf8_decode bs)
      else if 240 \<le> b \<and> b \<le> 244 then
        (case bs of
           [] \<Rightarrow> [65533]
         | c # cs \<Rightarrow>
             if (if b = 240 then 144 else 128) \<le> c \<and> c \<le> (if b = 244 then 143 else 191) then
               (case cs of
                  [] \<Rightarrow> [65533]
                | d # ds \<Rightarrow>
                    if 128 \<le> d \<and> d \<le> 191 then
                      (case ds of
                         [] \<Rightarrow> [65533]
                       | e # es \<Rightarrow>
                           if 128 \<le> e \<and> e \<le> 191
                           then surrogates ((b - 240) * 262144 + (c - 128) * 4096
                                            + (d - 128) * 64 + (e - 128)) @ utf8_decode es
                           else 65533 # utf8_decode ds)
                    else 65533 # utf8_decode cs)
             else 65533 # utf8_decode bs)
      else 65533 # utf8_decode bs)"

declare utf8_decode.simps [simp del]

text \<open>The code units of a string of plain text, and \<^verbatim>\<open>buffer.toString()\<close>.\<close>

definition units :: "string \<Rightarrow> nat list" where
  "units s = map of_char s"

definition toString :: "string \<Rightarrow> nat list" where
  "toString buffer = utf8_decode (map of_char buffer)"

text \<open>
  \<open>getMeasurement\<close>: both searches run on the bytes of the buffer and answer byte
  offsets; the cut is then made in the decoded string with these offsets.
\<close>

definition getMeasurement :: "string \<Rightarrow> string \<Rightarrow> nat list" where
  "getMeasurement output identifier =
     (let firstIndex = lastIndexOf output identifier + int (length identifier) + 1;
          lastIndex = indexOf output ''seconds'' firstIndex - 1
      in substring (toString output) firstIndex lastIndex)"

definition mean_marker :: string where
  "mean_marker = ''[MEAN] Largest Contentful Paint (LCP):''"

definition stdev_marker :: string where
  "stdev_marker = ''[STDEV] Largest Contentful Paint (LCP):''"

section \<open>Numbers, idealised\<close>

text \<open>
  The script leaves its arithmetic to the runtime, and the model takes the runtime's
  number operations as parameters (see \<open>world\<close> below). For running the model on
  samples this section provides one instance, in which a number is its mathematical
  value: a rational, one of the two infinities, or NaN. It leaves out the rounding of
  binary floating point, the sign of zero and the overflow of large literals; on the
  sample values used below it agrees with JavaScript.
\<close>

datatype number = NaN | Fin rat | PosInf | NegInf

definition isNaN :: "number \<Rightarrow> bool" where
  "isNaN x = (x = NaN)"

text \<open>White space and line terminators, as code units.\<close>

definition is_space :: "nat \<Rightarrow> bool" where
  "is_space u =
     (u \<in> set [9, 10, 11, 12, 13, 32, 160, 5760, 8232, 8233, 8239, 8287, 12288, 65279]
      \<or> (8192 \<le> u \<and> u \<le> 8202))"

definition is_digit :: "nat \<Rightarrow> bool" where
  "is_digit u = (48 \<le> u \<and> u \<le> 57)"

definition digits_val :: "nat list \<Rightarrow> nat" where
  "digits_val ds = foldl (\<lambda>n u. 10 * n + (u - 48)) 0 ds"

text \<open>
  The optional exponent of a decimal literal: \<^verbatim>\<open>e\<close> or \<^verbatim>\<open>E\<close> (101, 69), an optional
  sign (45, 43), digits. An exponent without digits is not consumed.
\<close>

definition exponent_part :: "nat list \<Rightarrow> int" where
  "exponent_part s =
     (case s of
        [] \<Rightarrow> 0
      | c # r \<Rightarrow>
          if c = 101 \<or> c = 69 then
            (case r of
               [] \<Rightarrow> 0
             | d # r' \<Rightarrow>
                 if d = 45 then - int (digits_val (takeWhile is_digit r'))
                 else if d = 43 then int (digits_val (takeWhile is_digit r'))
                 else int (digits_val (takeWhile is_digit r)))
          else 0)"

definition scale10 :: "rat \<Rightarrow> int \<Rightarrow> rat" where
  "scale10 x e = (if 0 \<le> e then x * 10 ^ nat e else x / 10 ^ nat (- e))"

text \<open>
  The longest prefix that is an unsigned decimal literal: digits, an optional fraction
  behind a point (46), an optional exponent; at least one digit is needed.
\<close>

definition unsigned_literal :: "nat list \<Rightarrow> rat option" where
  "unsigned_literal s =
     (let ip = takeWhile is_digit s;
          r1 = dropWhile is_digit s;
          fp = (case r1 of [] \<Rightarrow> [] | c # r \<Rightarrow> if c = 46 then takeWhile is_digit r else []);
          r2 = (case r1 of [] \<Rightarrow> [] | c # r \<Rightarrow> if c = 46 then dropWhile is_digit r else r1)
      in if ip = [] \<and> fp = [] then None
         else Some (scale10 (of_nat (digits_val (ip @ fp))) (exponent_part r2 - int (length fp))))"

definition signed_literal :: "bool \<Rightarrow> nat list \<Rightarrow> number" where
  "signed_literal neg s =
     (if take 8 s = units ''Infinity'' then (if neg then NegInf else PosInf)
      else case unsigned_literal s of
             None \<Rightarrow> NaN
           | Some x \<Rightarrow> Fin (if neg then - x else x))"

text \<open>
  \<^verbatim>\<open>parseFloat\<close>: leading white space is skipped, then the longest prefix that is a
  signed decimal literal is read; NaN when there is none.
\<close>

definition parseFloat :: "nat list \<Rightarrow> number" where
  "parseFloat s =
     (case dropWhile is_space s of
        [] \<Rightarrow> NaN
      | c # r \<Rightarrow>
          if c = 45 then signed_literal True r
          else if c = 43 then signed_literal False r
          else signed_literal False (c # r))"

fun num_sub :: "number \<Rightarrow> number \<Rightarrow> number" where
  "num_sub NaN _ = NaN"
| "num_sub _ NaN = NaN"
| "num_sub (Fin x) (Fin y) = Fin (x - y)"
| "num_sub (Fin x) PosInf = NegInf"
| "num_sub (Fin x) NegInf = PosInf"
| "num_sub PosInf PosInf = NaN"
| "num_sub PosInf _ = PosInf"
| "num_sub NegInf NegInf = NaN"
| "num_sub NegInf _ = NegInf"

fun num_div :: "number \<Rightarrow> number \<Rightarrow> number" where
  "num_div NaN _ = NaN"
| "num_div _ NaN = NaN"
| "num_div (Fin x) (Fin y) =
     (if y = 0 then (if x = 0 then NaN else if 0 < x then PosInf else NegInf)
      else Fin (x / y))"
| "num_div (Fin x) _ = Fin 0"
| "num_div PosInf (Fin y) = (if 0 \<le> y then PosInf else NegInf)"
| "num_div NegInf (Fin y) = (if 0 \<le> y then NegInf else PosInf)"
| "num_div _ _ = NaN"

fun num_mul :: "number \<Rightarrow> number \<Rightarrow> number" where
  "num_mul NaN _ = NaN"
| "num_mul _ NaN = NaN"
| "num_mul (Fin x) (Fin y) = Fin (x * y)"
| "num_mul (Fin x) PosInf = (if x = 0 then NaN else if 0 < x then PosInf else NegInf)"
| "num_mul (Fin x) NegInf = (if x = 0 then NaN else if 0 < x then NegInf else PosInf)"
| "num_mul PosInf (Fin y) = (if y = 0 then NaN else if 0 < y then PosInf else NegInf)"
| "num_mul NegInf (Fin y) = (if y = 0 then NaN else if 0 < y then NegInf else PosInf)"
| "num_mul PosInf PosInf = PosInf"
| "num_mul PosInf NegInf = NegInf"
| "num_mul NegInf PosInf = NegInf"
| "num_mul NegInf NegInf = PosInf"

definition digit_char :: "nat \<Rightarrow> char" where
  "digit_char d = ''0123456789'' ! (d mod 10)"

fun nat_to_digits :: "nat \<Rightarrow> string" where
  "nat_to_digits n =
     (if n < 10 then [digit_char n] else nat_to_digits (n div 10) @ [digit_char (n mod 10)])"

declare nat_to_digits.simps [simp del]

definition int_text :: "int \<Rightarrow> string" where
  "int_text i = (if i < 0 then ''-'' @ nat_to_digits (nat (- i)) else nat_to_digits (nat i))"

text \<open>
  \<^verbatim>\<open>x.toFixed(3)\<close>: the magnitude is rounded to the nearest multiple of 1/1000, the
  larger one on a tie, and printed with three fraction digits behind the sign.
  (From 1e21 on JavaScript switches to exponent notation; this instance does not.)
\<close>

definition toFixed3 :: "number \<Rightarrow> string" where
  "toFixed3 x =
     (case x of
        NaN \<Rightarrow> ''NaN''
      | PosInf \<Rightarrow> ''Infinity''
      | NegInf \<Rightarrow> ''-Infinity''
      | Fin q \<Rightarrow>
          (let n = nat \<lfloor>\<bar>q\<bar> * 1000 + 1 / 2\<rfloor>
           in (if q < 0 then ''-'' else '''')
              @ nat_to_digits (n div 1000) @ ''.''
              @ [digit_char (n mod 1000 div 100), digit_char (n mod 100 div 10),
                 digit_char (n mod 10)]))"

text \<open>
  \<^verbatim>\<open>parseInt(x.toString())\<close> for a number \<open>x\<close>: its integer part, NaN (\<open>None\<close>) for an
  infinity or NaN. (Exact while the text of \<open>x\<close> is in plain decimal notation.)
\<close>

definition parseInt_of_text :: "number \<Rightarrow> int option" where
  "parseInt_of_text x =
     (case x of
        Fin q \<Rightarrow> Some (if 0 \<le> q then \<lfloor>q\<rfloor> else - \<lfloor>- q\<rfloor>)
      | _ \<Rightarrow> None)"

definition truthy_number :: "number \<Rightarrow> bool" where
  "truthy_number x = (x \<noteq> NaN \<and> x \<noteq> Fin 0)"

section \<open>Files, manifests and effects\<close>

text \<open>
  The three manifest files the script touches, named from its working directory
  \<^verbatim>\<open>scripts/performance\<close>: the live manifest \<^verbatim>\<open>../../examples/browser/package.json\<close>,
  the backup \<^verbatim>\<open>./backup-package.json\<close> and the base manifest \<^verbatim>\<open>./base-package.json\<close>.
\<close>

datatype path = Live | Backup | Base

text \<open>
  A manifest is a JSON object; only its \<^verbatim>\<open>dependencies\<close> member is inspected, when
  present an object, taken as a map from names to versions. A file holds either a JSON
  document in some layout (the order and spacing of its text; two files are the same
  bytes when document and layout agree) or other text.
\<close>

record manifest =
  dependencies :: "(string \<rightharpoonup> string) option"
  other_members :: string

datatype content = Json manifest string | Raw string

text \<open>The layout written by \<^verbatim>\<open>JSON.stringify(package, null, 2)\<close>.\<close>

definition pretty2 :: string where
  "pretty2 = ''indent 2''"

datatype error =
    ENOENT path
  | ExecFailed string
  | CannotLoad path
  | CannotReadPackages
  | TypeError

datatype event =
    ConsoleLog string
  | ConsoleError string
  | LoggedError error
  | CopySync path path
  | CopyIssued path path
  | CopyLanded path path
  | WriteFile path content
  | Unlink path
  | Exec string
  | Mkdirp string

datatype 'n base_time = Undefined | Provided string | Measured 'n

record package_dir =
  dir_name :: string
  is_directory :: bool
  package_json :: "(string \<times> string) option"

text \<open>
  What the script cannot decide itself, for numbers of any type \<open>'n\<close>:
  \<^item> at which of its later steps an asynchronous copy has reached the disk;
  \<^item> what each external command prints (\<open>None\<close> when \<^verbatim>\<open>execSync\<close> throws);
  \<^item> the content of \<^verbatim>\<open>../../packages\<close>;
  \<^item> the runtime's number operations: \<^verbatim>\<open>parseFloat\<close> of a string, \<^verbatim>\<open>isNaN\<close>,
    \<^verbatim>\<open>toFixed(3)\<close>, subtraction, \<^verbatim>\<open>(stdev / mean) * 100\<close>, truthiness, the text of a
    number, the number a string converts to, \<^verbatim>\<open>parseInt(x.toString())\<close> (\<open>None\<close> for
    NaN) and \<^verbatim>\<open>parseFloat(x.toString())\<close> of a number \<open>x\<close>;
  \<^item> what the runtime does once a promise was rejected and nobody handles it: the exit
    status, and whether the event loop still waits for the pending copies.
\<close>

record 'n world =
  lands :: "nat \<Rightarrow> bool"
  exec_result :: "nat \<Rightarrow> string \<Rightarrow> string option"
  packages :: "package_dir list option"
  js_parseFloat :: "nat list \<Rightarrow> 'n"
  js_isNaN :: "'n \<Rightarrow> bool"
  js_toFixed3 :: "'n \<Rightarrow> string"
  js_minus :: "'n \<Rightarrow> 'n \<Rightarrow> 'n"
  js_percent :: "'n \<Rightarrow> 'n \<Rightarrow> 'n"
  js_truthy :: "'n \<Rightarrow> bool"
  js_text :: "'n \<Rightarrow> string"
  js_to_number :: "string \<Rightarrow> 'n"
  js_parseInt_of_text :: "'n \<Rightarrow> int option"
  js_reparse :: "'n \<Rightarrow> 'n"
  rejection_status :: nat
  rejection_drains :: bool

text \<open>
  The module variables of the script (\<open>runs\<close> is \<open>None\<close> when it is NaN), the three
  files, the module cache of \<^verbatim>\<open>require\<close> for the live manifest, the asynchronous
  copies issued and not yet on disk, the rejected promises nobody awaits, and the
  effects so far in order.
\<close>

record 'n state =
  files :: "path \<Rightarrow> content option"
  pending :: nat
  clock :: nat
  execs :: nat
  cache :: "manifest option"
  runs :: "int option"
  baseTime :: "'n base_time"
  extensions :: "string list"
  yarn :: bool
  url :: "string option"
  unhandled :: "error list"
  trace :: "event list"

datatype ('a, 'n) result = Return 'a "'n state" | Throw error "'n state"

fun state_of :: "('a, 'n) result \<Rightarrow> 'n state" where
  "state_of (Return x s) = s"
| "state_of (Throw e s) = s"

definition emit :: "event \<Rightarrow> 'n state \<Rightarrow> 'n state" where
  "emit e s = s\<lparr>trace := trace s @ [e]\<rparr>"

text \<open>
  One asynchronous \<^verbatim>\<open>copyFile('./base-package.json', live)\<close> reaches the disk; its
  callback logs the error when the base manifest is missing.
\<close>

definition land :: "'n state \<Rightarrow> 'n state" where
  "land s =
     (case files s Base of
        None \<Rightarrow> emit (LoggedError (ENOENT Base)) (s\<lparr>pending := pending s - 1\<rparr>)
      | Some c \<Rightarrow>
          emit (CopyLanded Base Live)
            (s\<lparr>files := (files s)(Live \<mapsto> c), pending := pending s - 1\<rparr>))"

text \<open>
  Before each synchronous file operation and around each external command the world
  says whether one pending copy has landed by now.
\<close>

definition settle :: "'n world \<Rightarrow> 'n state \<Rightarrow> 'n state" where
  "settle w s =
     (if 0 < pending s \<and> lands w (clock s) then land (s\<lparr>clock := clock s + 1\<rparr>)
      else s\<lparr>clock := clock s + 1\<rparr>)"

definition copyFileSync :: "'n world \<Rightarrow> path \<Rightarrow> path \<Rightarrow> 'n state \<Rightarrow> (unit, 'n) result" where
  "copyFileSync w src dst s =
     (let s1 = settle w s
      in case files s1 src of
           None \<Rightarrow> Throw (ENOENT src) s1
         | Some c \<Rightarrow> Return () (emit (CopySync src dst) (s1\<lparr>files := (files s1)(dst \<mapsto> c)\<rparr>)))"

definition unlinkSync :: "'n world \<Rightarrow> path \<Rightarrow> 'n state \<Rightarrow> (unit, 'n) result" where
  "unlinkSync w p s =
     (let s1 = settle w s
      in case files s1 p of
           None \<Rightarrow> Throw (ENOENT p) s1
         | Some c \<Rightarrow> Return () (emit (Unlink p) (s1\<lparr>files := (files s1)(p := None)\<rparr>)))"

definition writeFileSync :: "'n world \<Rightarrow> path \<Rightarrow> content \<Rightarrow> 'n state \<Rightarrow> 'n state" where
  "writeFileSync w p c s =
     (let s1 = settle w s
      in emit (WriteFile p c) (s1\<lparr>files := (files s1)(p \<mapsto> c)\<rparr>))"

definition execSync :: "'n world \<Rightarrow> string \<Rightarrow> 'n state \<Rightarrow> (string, 'n) result" where
  "execSync w cmd s =
     (let s1 = settle w s;
          r = exec_result w (execs s1) cmd;
          s2 = settle w (emit (Exec cmd) (s1\<lparr>execs := execs s1 + 1\<rparr>))
      in case r of None \<Rightarrow> Throw (ExecFailed cmd) s2 | Some out \<Rightarrow> Return out s2)"

section \<open>The workspace\<close>

definition copyBasePackage :: "'n state \<Rightarrow> 'n state" where
  "copyBasePackage s = emit (CopyIssued Base Live) (s\<lparr>pending := pending s + 1\<rparr>)"

definition prepareWorkspace :: "'n world \<Rightarrow> 'n state \<Rightarrow> (unit, 'n) result" where
  "prepareWorkspace w s =
     (case copyFileSync w Live Backup s of
        Throw e s' \<Rightarrow> Throw e s'
      | Return u s1 \<Rightarrow> Return () (emit (Mkdirp ''../../noPlugins'') (copyBasePackage s1)))"

definition cleanWorkspace :: "'n world \<Rightarrow> 'n state \<Rightarrow> (unit, 'n) result" where
  "cleanWorkspace w s =
     (case copyFileSync w Backup Live s of
        Throw e s' \<Rightarrow> Throw e s'
      | Return u s1 \<Rightarrow> unlinkSync w Backup s1)"

section \<open>Enumerating the packages\<close>

fun qualifiers :: "package_dir list \<Rightarrow> string list option" where
  "qualifiers [] = Some []"
| "qualifiers (d # ds) =
     (case package_json d of
        None \<Rightarrow> None
      | Some (name, version) \<Rightarrow> map_option ((#) (make_qualifier name version)) (qualifiers ds))"

definition getPackagesExtensions :: "'n world \<Rightarrow> 'n state \<Rightarrow> (string list, 'n) result" where
  "getPackagesExtensions w s =
     (case packages w of
        None \<Rightarrow> Throw CannotReadPackages s
      | Some entries \<Rightarrow>
          (let directories = filter (\<lambda>d. dir_name d \<noteq> ''core'') (filter is_directory entries)
           in case qualifiers directories of
                None \<Rightarrow> Throw CannotReadPackages s
              | Some qs \<Rightarrow> Return qs s))"

section \<open>One trial\<close>

text \<open>
  \<^verbatim>\<open>require('../../examples/browser/package.json')\<close>: the file is read and parsed the
  first time only; afterwards the same object comes from the module cache.
\<close>

definition require_manifest :: "'n world \<Rightarrow> 'n state \<Rightarrow> (manifest, 'n) result" where
  "require_manifest w s =
     (case cache s of
        Some m \<Rightarrow> Return m s
      | None \<Rightarrow>
          (let s1 = settle w s
           in case files s1 Live of
                None \<Rightarrow> Throw (CannotLoad Live) s1
              | Some (Raw t) \<Rightarrow> Throw (CannotLoad Live) s1
              | Some (Json m l) \<Rightarrow> Return m (s1\<lparr>cache := Some m\<rparr>)))"

text \<open>
  \<^verbatim>\<open>object[key] = value\<close> on an object read from JSON: the member is set, except that
  assigning a string to \<^verbatim>\<open>__proto__\<close> does nothing when the object has no member of
  that name of its own.
\<close>

definition set_property ::
    "string \<Rightarrow> string \<Rightarrow> (string \<rightharpoonup> string) \<Rightarrow> (string \<rightharpoonup> string)" where
  "set_property k v m = (if k = ''__proto__'' \<and> m k = None then m else m(k \<mapsto> v))"

definition runs_text :: "int option \<Rightarrow> string" where
  "runs_text r = (case r of None \<Rightarrow> ''NaN'' | Some k \<Rightarrow> int_text k)"

definition measure_command :: "int option \<Rightarrow> string option \<Rightarrow> string" where
  "measure_command runs' url' =
     ''concurrently --success first -k -r '' @ [CHR 0x22]
     @ ''cd scripts/performance && node measure-performance.js --name Startup --folder script --runs ''
     @ runs_text runs'
     @ (case url' of Some u \<Rightarrow> '' --url '' @ u | None \<Rightarrow> '''')
     @ [CHR 0x22] @ '' '' @ [CHR 0x22]
     @ ''yarn --cwd examples/browser start | grep -v '' @ [CHR 0x27] @ ''.*'' @ [CHR 0x27, CHR 0x22]"

definition mean_of :: "'n world \<Rightarrow> string \<Rightarrow> 'n" where
  "mean_of w output = js_parseFloat w (getMeasurement output mean_marker)"

definition stdev_of :: "'n world \<Rightarrow> string \<Rightarrow> 'n" where
  "stdev_of w output = js_parseFloat w (getMeasurement output stdev_marker)"

definition row :: "string \<Rightarrow> string \<Rightarrow> string \<Rightarrow> string \<Rightarrow> string \<Rightarrow> string" where
  "row label mean stdev cv diff =
     label @ '', '' @ mean @ '', '' @ stdev @ '', '' @ cv @ '', '' @ diff"

text \<open>
  The end of \<^verbatim>\<open>calculateExtension\<close>, from the parsing of the output to the printed
  row. A base time given on the command line is the string made by \<^verbatim>\<open>toFixed(3)\<close>,
  which the subtraction converts back to a number.
\<close>

definition report :: "'n world \<Rightarrow> string \<Rightarrow> string \<Rightarrow> 'n state \<Rightarrow> 'n state" where
  "report w label output s =
     (let mean = mean_of w output; stdev = stdev_of w output
      in if js_isNaN w mean \<or> js_isNaN w stdev then
           emit (ConsoleLog (label @ '', Error while measuring with this extension, -, -, -'')) s
         else
           (let cv = js_toFixed3 w (js_percent w stdev mean)
            in case baseTime s of
                 Undefined \<Rightarrow>
                   emit (ConsoleLog (row label (js_toFixed3 w mean) (js_toFixed3 w stdev) cv ''-''))
                     (s\<lparr>baseTime := Measured mean\<rparr>)
               | Provided t \<Rightarrow>
                   emit (ConsoleLog (row label (js_toFixed3 w mean) (js_toFixed3 w stdev) cv
                           (js_toFixed3 w (js_minus w mean (js_to_number w t))))) s
               | Measured m \<Rightarrow>
                   emit (ConsoleLog (row label (js_toFixed3 w mean) (js_toFixed3 w stdev) cv
                           (js_toFixed3 w (js_minus w mean m)))) s))"

definition measure :: "'n world \<Rightarrow> string \<Rightarrow> 'n state \<Rightarrow> (unit, 'n) result" where
  "measure w label s =
     (case execSync w (measure_command (runs s) (url s)) s of
        Throw e s' \<Rightarrow> Throw e s'
      | Return output s1 \<Rightarrow> Return () (report w label output s1))"

definition calculateExtension ::
    "'n world \<Rightarrow> string option \<Rightarrow> 'n state \<Rightarrow> (unit, 'n) result" where
  "calculateExtension w extensionQualifier s =
     (case extensionQualifier of
        None \<Rightarrow> measure w ''Base Theia'' s
      | Some q \<Rightarrow>
          (let name = qualifier_name q; version = qualifier_version q
           in case require_manifest w s of
                Throw e s' \<Rightarrow> Throw e s'
              | Return package s1 \<Rightarrow>
                  (case dependencies package of
                     None \<Rightarrow> Throw TypeError s1
                   | Some deps \<Rightarrow>
                       (let package' = package\<lparr>dependencies := Some (set_property name version deps)\<rparr>;
                            s2 = writeFileSync w Live (Json package' pretty2)
                                   (s1\<lparr>cache := Some package'\<rparr>)
                        in case execSync w ''yarn browser build'' s2 of
                             Throw e s' \<Rightarrow> Throw e s'
                           | Return out s3 \<Rightarrow> measure w q s3))))"

section \<open>The sweep\<close>

fun trials :: "'n world \<Rightarrow> string list \<Rightarrow> 'n state \<Rightarrow> (unit, 'n) result" where
  "trials w [] s = Return () s"
| "trials w (e # es) s =
     (case calculateExtension w (Some e) s of
        Throw x s' \<Rightarrow> Throw x s'
      | Return u s1 \<Rightarrow> trials w es (copyBasePackage s1))"

definition header :: "'n state \<Rightarrow> string" where
  "header s = ''Extension Name, Mean ('' @ runs_text (runs s)
              @ '' runs) (in s), Std Dev (in s), CV (%), Delta (in s)''"

text \<open>
  The base measurement is started without \<^verbatim>\<open>await\<close>: when it throws, the rejected
  promise is left behind and the sweep goes on.
\<close>

definition extensionImpact :: "'n world \<Rightarrow> string list \<Rightarrow> 'n state \<Rightarrow> (unit, 'n) result" where
  "extensionImpact w exts s =
     (let s1 = emit (ConsoleLog (header s)) s;
          s2 = (case baseTime s1 of
                  Undefined \<Rightarrow>
                    (case calculateExtension w None s1 of
                       Return u t \<Rightarrow> t
                     | Throw e t \<Rightarrow> t\<lparr>unhandled := unhandled t @ [e]\<rparr>)
                | Provided t \<Rightarrow> emit (ConsoleLog (''Base Theia (provided), '' @ t @ '', -, -, -'')) s1
                | Measured m \<Rightarrow>
                    emit (ConsoleLog (''Base Theia (provided), '' @ js_text w m @ '', -, -, -'')) s1)
      in if length exts < 1 then
           (case getPackagesExtensions w s2 of
              Throw e s' \<Rightarrow> Throw e s'
            | Return found s3 \<Rightarrow> trials w found s3)
         else trials w exts s2)"

section \<open>Start-up and exit\<close>

record 'n args =
  arg_baseTime :: "'n option"
  arg_runs :: "'n option"
  arg_extensions :: "string list option"
  arg_yarn :: bool
  arg_url :: "string option"

text \<open>
  The option checks of the start-up function: \<open>None\<close> is an option that was not given.
  The answer is the message of the rejection or the configured state.
\<close>

definition configure :: "'n world \<Rightarrow> 'n args \<Rightarrow> 'n state \<Rightarrow> (string \<times> 'n state) + 'n state" where
  "configure w a s =
     (let s1 = (case arg_baseTime a of
                  Some b \<Rightarrow>
                    if js_truthy w b
                    then s\<lparr>baseTime := Provided (js_toFixed3 w (js_reparse w b))\<rparr> else s
                | None \<Rightarrow> s);
          s2 = (case arg_extensions a of Some es \<Rightarrow> s1\<lparr>extensions := es\<rparr> | None \<Rightarrow> s1);
          s3 = (case arg_runs a of
                  Some r \<Rightarrow> if js_truthy w r then s2\<lparr>runs := js_parseInt_of_text w r\<rparr> else s2
                | None \<Rightarrow> s2)
      in if (case arg_runs a of
               Some r \<Rightarrow> js_truthy w r \<and> (case js_parseInt_of_text w r of
                                            Some k \<Rightarrow> k < 2 | None \<Rightarrow> False)
             | None \<Rightarrow> False)
         then Inl (''--runs must be at least 2'', s3)
         else
           (let s4 = (if arg_yarn a then s3\<lparr>yarn := True\<rparr> else s3);
                s5 = (case arg_url a of
                        Some u \<Rightarrow> if u \<noteq> [] then s4\<lparr>url := Some u\<rparr> else s4
                      | None \<Rightarrow> s4)
            in Inr s5))"

text \<open>What follows the checks: the backup, the first build, the trials.\<close>

definition sweep :: "'n world \<Rightarrow> 'n state \<Rightarrow> (unit, 'n) result" where
  "sweep w s =
     (case prepareWorkspace w s of
        Throw e s' \<Rightarrow> Throw e s'
      | Return u s1 \<Rightarrow>
          (case execSync w (if yarn s1 then ''yarn build'' else ''yarn browser build'') s1 of
             Throw e s' \<Rightarrow> Throw e s'
           | Return out s2 \<Rightarrow> extensionImpact w (extensions s2) s2))"

definition main :: "'n world \<Rightarrow> 'n args \<Rightarrow> 'n state \<Rightarrow> (unit, 'n) result" where
  "main w a s =
     (case configure w a s of
        Inl (message, s') \<Rightarrow> Return () (emit (ConsoleError message) s')
      | Inr s' \<Rightarrow> sweep w s')"

definition initial :: "(path \<Rightarrow> content option) \<Rightarrow> 'n state" where
  "initial fs =
     \<lparr>files = fs, pending = 0, clock = 0, execs = 0, cache = None, runs = Some 10,
      baseTime = Undefined, extensions = [], yarn = False, url = None,
      unhandled = [], trace = []\<rparr>"

text \<open>
  \<^verbatim>\<open>exitHandler\<close>, registered for \<^verbatim>\<open>exit\<close> and \<^verbatim>\<open>SIGINT\<close>: an exception of
  \<^verbatim>\<open>cleanWorkspace\<close> rejects the handler's promise, and \<^verbatim>\<open>process.exit()\<close> is skipped.
\<close>

definition exitHandler :: "'n world \<Rightarrow> 'n state \<Rightarrow> 'n state" where
  "exitHandler w s =
     (case cleanWorkspace w s of
        Return u s' \<Rightarrow> s'
      | Throw e s' \<Rightarrow> s'\<lparr>unhandled := unhandled s' @ [e]\<rparr>)"

text \<open>
  The whole process. The start-up function runs to its end without giving the event
  loop a turn (every \<^verbatim>\<open>await\<close> is on a promise that is already settled), so a signal
  handler cannot run in between: an interrupt shows as a command that fails. When the
  start-up function has returned and no promise was rejected, the event loop waits for
  the pending copies and the process ends with status 0, the script never setting
  one. After an exception or a rejected promise the runtime decides. The exit handler
  runs last.
\<close>

definition process_run ::
    "'n world \<Rightarrow> 'n args \<Rightarrow> (path \<Rightarrow> content option) \<Rightarrow> nat \<times> 'n state" where
  "process_run w a fs =
     (case main w a (initial fs) of
        Return u s \<Rightarrow>
          if unhandled s = [] then (0, exitHandler w ((land ^^ pending s) s))
          else (rejection_status w,
                exitHandler w (if rejection_drains w then (land ^^ pending s) s else s))
      | Throw e s \<Rightarrow>
          (rejection_status w,
           exitHandler w (if rejection_drains w then (land ^^ pending s) s else s)))"

section \<open>The result parser as the specification words it\<close>



section \<open>Sample data\<close>

text \<open>
  What the measurement tool prints at the end of a run: one line for the mean and one
  for the standard deviation.
\<close>

definition sample_output :: "string \<Rightarrow> string \<Rightarrow> string" where
  "sample_output mean stdev =
     mean_marker @ '' '' @ mean @ '' seconds'' @ [CHR 0x0A]
     @ stdev_marker @ '' '' @ stdev @ '' seconds'' @ [CHR 0x0A]"

text \<open>What a failing tool may print instead: no marker, no \<^verbatim>\<open>seconds\<close>.\<close>

definition unmarked_output :: string where
  "unmarked_output = ''3 of 10 runs timed out''"

definition sample_manifest :: manifest where
  "sample_manifest =
     \<lparr>dependencies = Some [''@theia/core'' \<mapsto> ''1.0.0''], other_members = ''private''\<rparr>"

text \<open>A workspace before a run: the live manifest and the base manifest, no backup.\<close>

definition sample_files :: "path \<Rightarrow> content option" where
  "sample_files p =
     (case p of
        Live \<Rightarrow> Some (Json sample_manifest ''as checked out'')
      | Backup \<Rightarrow> None
      | Base \<Rightarrow> Some (Json sample_manifest ''base''))"

text \<open>
  A world with the idealised numbers in which every command succeeds and every
  measurement prints 2.500 and 0.100; the schedule of the copies is left open.
\<close>

definition sample_world :: "(nat \<Rightarrow> bool) \<Rightarrow> number world" where
  "sample_world l =
     \<lparr>lands = l, exec_result = (\<lambda>n cmd. Some (sample_output ''2.500'' ''0.100'')),
      packages = None, js_parseFloat = parseFloat, js_isNaN = isNaN, js_toFixed3 = toFixed3,
      js_minus = num_sub, js_percent = (\<lambda>stdev mean. num_mul (num_div stdev mean) (Fin 100)),
      js_truthy = truthy_number, js_text = toFixed3,
      js_to_number = (\<lambda>t. parseFloat (units t)),
      js_parseInt_of_text = parseInt_of_text, js_reparse = (\<lambda>x. x),
      rejection_status = 1, rejection_drains = False\<rparr>"

definition sample_args :: "number args" where
  "sample_args =
     \<lparr>arg_baseTime = None, arg_runs = None, arg_extensions = None, arg_yarn = False,
      arg_url = None\<rparr>"

text \<open>A base time and two extensions on the command line.\<close>

definition two_extensions :: "number args" where
  "two_extensions =
     sample_args\<lparr>arg_baseTime := Some (Fin 2),
       arg_extensions := Some [make_qualifier ''a'' ''1'', make_qualifier ''b'' ''2'']\<rparr>"

text \<open>The effects on the three manifest files, picked from a trace.\<close>

fun touches_manifest :: "event \<Rightarrow> bool" where
  "touches_manifest (CopySync src dst) = True"
| "touches_manifest (CopyIssued src dst) = True"
| "touches_manifest (CopyLanded src dst) = True"
| "touches_manifest (WriteFile p c) = True"
| "touches_manifest (Unlink p) = True"
| "touches_manifest e = False"

section \<open>Searching in strings\<close>

lemma starts_with_Nil_iff: "starts_with n [] \<longleftrightarrow> n = []"
  by (cases n) simp_all


lemma no_match_Cons:
  "(\<forall>j\<le>length (c # cs). \<not> starts_with n (drop j (c # cs)))
     \<longleftrightarrow> \<not> starts_with n (c # cs) \<and> (\<forall>j\<le>length cs. \<not> starts_with n (drop j cs))"
  (is "?L \<longleftrightarrow> ?R")
proof
  assume l: ?L
  have "\<not> starts_with n (c # cs)" using l[rule_format, of 0] by simp
  moreover have "\<forall>j\<le>length cs. \<not> starts_with n (drop j cs)"
  proof (intro allI impI)
    fix j assume "j \<le> length cs"
    then show "\<not> starts_with n (drop j cs)" using l[rule_format, of "Suc j"] by simp
  qed
  ultimately show ?R by simp
next
  assume r: ?R
  show ?L
  proof (intro allI impI)
    fix j assume "j \<le> length (c # cs)"
    then show "\<not> starts_with n (drop j (c # cs))" using r by (cases j) simp_all
  qed
qed


lemma find_first_None_iff:
  "find_first n s = None \<longleftrightarrow> (\<forall>j\<le>length s. \<not> starts_with n (drop j s))"
proof (induction s)
  case Nil
  show ?case by (simp add: starts_with_Nil_iff)
next
  case (Cons c cs)
  with no_match_Cons[of c cs n] show ?case by simp
qed





section \<open>Decoding plain text\<close>

lemma utf8_decode_ascii_append:
  "\<forall>b\<in>set p. b < 128 \<Longrightarrow> utf8_decode (p @ r) = p @ utf8_decode r"
  by (induction p) (simp_all add: utf8_decode.simps)

lemma toString_ascii_prefix:
  assumes "\<forall>x\<in>set p. (of_char x :: nat) < 128"
  shows "toString (p @ r) = units p @ toString r"
proof -
  from assms have "\<forall>b\<in>set (map of_char p). b < (128::nat)" by simp
  then show ?thesis
    by (simp add: toString_def units_def utf8_decode_ascii_append)
qed

lemma toString_ascii:
  assumes "\<forall>x\<in>set p. (of_char x :: nat) < 128"
  shows "toString p = units p"
  using toString_ascii_prefix[OF assms, of "[]"]
  by (simp add: toString_def utf8_decode.simps)


text \<open>
  When \<^verbatim>\<open>seconds\<close> is not found from the start on, \<^verbatim>\<open>indexOf\<close> answers -1 and the
  cut runs from the beginning of the decoded string to the start, both clamped.
\<close>

lemma getMeasurement_no_seconds:
  assumes f: "lastIndexOf output identifier + int (length identifier) + 1 = int f"
    and sec: "find_first ''seconds'' (drop (min f (length output)) output) = None"
  shows "getMeasurement output identifier = take f (toString output)"
proof -
  have cl: "clamp_index output (int f) = min f (length output)"
    by (simp add: clamp_index_def min_def)
  have io: "indexOf output ''seconds'' (int f) = - 1"
    using sec cl by (simp add: indexOf_def Let_def)
  have "getMeasurement output identifier = substring (toString output) (int f) (- 2)"
    unfolding getMeasurement_def Let_def f io by simp
  also have "\<dots> = take f (toString output)"
    by (simp add: substring_def Let_def clamp_index_def min_def)
  finally show ?thesis .
qed

section \<open>Evaluating numbers\<close>




section \<open>Parsing a qualifier back into name and version\<close>

lemma find_last_single_none: "c \<notin> set ys \<Longrightarrow> find_last [c] ys = None"
  by (induction ys) (auto split: list.splits)

lemma find_last_single_append:
  "c \<notin> set ys \<Longrightarrow> find_last [c] (xs @ c # ys) = Some (length xs)"
  by (induction xs) (simp_all add: find_last_single_none)

lemma strip_quotes_id: "CHR 0x22 \<notin> set s \<Longrightarrow> strip_quotes s = s"
  unfolding strip_quotes_def by (induction s) auto

lemma strip_quotes_make_qualifier:
  assumes "CHR 0x22 \<notin> set name" "CHR 0x22 \<notin> set version"
  shows "strip_quotes (make_qualifier name version) = name @ CHR '':'' # CHR '' '' # version"
  using assms strip_quotes_id[of name] strip_quotes_id[of version]
  by (simp add: strip_quotes_def make_qualifier_def)

text \<open>
  C2, as the claim states it, fails: the enumerator joins the two quoted parts with a
  colon and a space, and the parser cuts right after the colon, so the version it
  recovers starts with that space.
\<close>

theorem qualifier_version_counterexample:
  "qualifier_version (make_qualifier ''a'' ''1.0.0'') \<noteq> ''1.0.0''"
  by (simp add: qualifier_version_def make_qualifier_def strip_quotes_def lastIndexOf_def
      substring_from_def clamp_index_def)

text \<open>
  C2 (amended): for a qualifier built by the package enumerator from a name and a
  version that contain no double quote, the version containing no colon, the parser
  recovers the name exactly, also when the name contains colons, and recovers the
  version with one leading space in front of it.
\<close>

theorem qualifier_parse:
  assumes "CHR 0x22 \<notin> set name" and "CHR 0x22 \<notin> set version"
    and "CHR '':'' \<notin> set version"
  shows "qualifier_name (make_qualifier name version) = name
       \<and> qualifier_version (make_qualifier name version) = CHR '' '' # version"
proof -
  let ?q = "name @ CHR '':'' # CHR '' '' # version"
  have sq: "strip_quotes (make_qualifier name version) = ?q"
    using assms(1,2) by (rule strip_quotes_make_qualifier)
  have "CHR '':'' \<notin> set (CHR '' '' # version)" using assms(3) by simp
  then have fl: "find_last '':'' ?q = Some (length name)"
    by (rule find_last_single_append)
  have li: "lastIndexOf ?q '':'' = int (length name)"
    by (simp add: lastIndexOf_def fl)
  have n: "qualifier_name (make_qualifier name version) = name"
    by (simp add: qualifier_name_def sq li substring_def clamp_index_def Let_def)
  have v: "qualifier_version (make_qualifier name version) = CHR '' '' # version"
    by (simp add: qualifier_version_def sq li substring_from_def clamp_index_def Let_def
        nat_add_distrib)
  from n v show ?thesis by simp
qed

theorem qualifier_parse_witness:
  "CHR 0x22 \<notin> set ''@theia/a:b'' \<and> CHR 0x22 \<notin> set ''1.0.0'' \<and> CHR '':'' \<notin> set ''1.0.0''
 \<and> qualifier_name (make_qualifier ''@theia/a:b'' ''1.0.0'') = ''@theia/a:b''
 \<and> qualifier_version (make_qualifier ''@theia/a:b'' ''1.0.0'') = '' 1.0.0''"
  using qualifier_parse [of "''@theia/a:b''" "''1.0.0''"] by simp
section \<open>The result parser\<close>




end
